theory Spec2Isabelle
  imports Main "HOL-Library.Sublist" "HOL-Library.Log_Nat"
begin

section \<open>Text\<close>

text \<open>
  A Python \<open>str\<close> is modelled as a \<^typ>\<open>string\<close> whose characters are the code points
  below 256 (Latin-1, which holds every letter of the Portuguese keywords of
  \<open>main.py\<close>). On this range \<open>str.isspace\<close>, the regular-expression classes \<open>\s\<close> and
  \<open>\d\<close>, and \<open>str.lower\<close> are the finite tables below.
\<close>

definition isspace :: "char \<Rightarrow> bool" where
  "isspace c =
     (let n = (of_char c :: int)
      in (9 \<le> n \<and> n \<le> 13) \<or> (28 \<le> n \<and> n \<le> 32) \<or> n = 133 \<or> n = 160)"

definition isdigit :: "char \<Rightarrow> bool" where
  "isdigit c = (let n = (of_char c :: int) in 48 \<le> n \<and> n \<le> 57)"

definition lower_char :: "char \<Rightarrow> char" where
  "lower_char c =
     (let n = (of_char c :: int)
      in if (65 \<le> n \<and> n \<le> 90) \<or> (192 \<le> n \<and> n \<le> 222 \<and> n \<noteq> 215)
         then char_of (n + 32) else c)"

definition lower :: "string \<Rightarrow> string" where
  "lower s = map lower_char s"

definition strip :: "string \<Rightarrow> string" where
  "strip s = rev (dropWhile isspace (rev (dropWhile isspace s)))"

text \<open>\<open>s.replace(a, b)\<close> for one-character \<open>a\<close>; \<open>b\<close> may be empty.\<close>

definition replace_char :: "char \<Rightarrow> string \<Rightarrow> string \<Rightarrow> string" where
  "replace_char a b s = concat (map (\<lambda>c. if c = a then b else [c]) s)"

section \<open>Regular expressions\<close>

text \<open>
  The fragment of Python's \<open>re\<close> that \<open>main.py\<close> uses: character classes, sequence,
  alternation, the greedy quantifiers \<open>?\<close>, \<open>*\<close> and \<open>+\<close> on a character class, and one
  capturing group. \<open>rx_all r s\<close> lists every way \<open>r\<close> matches a prefix of \<open>s\<close>, in the
  order in which a backtracking matcher tries them; each entry is the text of the
  group (if the group took part) and the rest of \<open>s\<close>. The head of the list is the match
  \<open>re\<close> reports at that position.
\<close>

datatype rx =
    Cls "char \<Rightarrow> bool"
  | Seq rx rx
  | Alt rx rx
  | Opt rx
  | Star "char \<Rightarrow> bool"
  | Plus "char \<Rightarrow> bool"
  | Grp rx

definition greedy :: "nat \<Rightarrow> (char \<Rightarrow> bool) \<Rightarrow> string \<Rightarrow> (string option \<times> string) list" where
  "greedy least p s =
     map (\<lambda>n. (None, drop n s)) (rev [least ..< Suc (length (takeWhile p s))])"

fun rx_all :: "rx \<Rightarrow> string \<Rightarrow> (string option \<times> string) list" where
  "rx_all (Cls p) s = (case s of [] \<Rightarrow> [] | c # cs \<Rightarrow> if p c then [(None, cs)] else [])"
| "rx_all (Seq a b) s =
     concat (map (\<lambda>(g, r). map (\<lambda>(g', r'). (case g' of None \<Rightarrow> g | Some t \<Rightarrow> Some t, r'))
                                 (rx_all b r))
                 (rx_all a s))"
| "rx_all (Alt a b) s = rx_all a s @ rx_all b s"
| "rx_all (Opt a) s = rx_all a s @ [(None, s)]"
| "rx_all (Star p) s = greedy 0 p s"
| "rx_all (Plus p) s = greedy 1 p s"
| "rx_all (Grp a) s = map (\<lambda>(g, r). (Some (take (length s - length r) s), r)) (rx_all a s)"

text \<open>
  \<open>re.findall\<close> for a pattern with one group: scan from left to right, report the group
  of the first match at the leftmost position that has one, and go on after the match
  (\<open>skip\<close> counts the characters of the last match still to pass).
\<close>

fun findall_from :: "rx \<Rightarrow> nat \<Rightarrow> string \<Rightarrow> string list" where
  "findall_from r skip [] =
     (if skip = 0 then (case rx_all r [] of [] \<Rightarrow> [] | (g, _) # _ \<Rightarrow> [case g of None \<Rightarrow> [] | Some t \<Rightarrow> t])
      else [])"
| "findall_from r (Suc k) (c # cs) = findall_from r k cs"
| "findall_from r 0 (c # cs) =
     (case rx_all r (c # cs) of
        [] \<Rightarrow> findall_from r 0 cs
      | (g, rest) # _ \<Rightarrow>
          (case g of None \<Rightarrow> [] | Some t \<Rightarrow> t) # findall_from r (length cs - length rest) cs)"

definition findall :: "rx \<Rightarrow> string \<Rightarrow> string list" where
  "findall r s = findall_from r 0 s"

text \<open>A literal character, and a letter under \<open>re.IGNORECASE\<close>.\<close>

definition chr :: "char \<Rightarrow> rx" where
  "chr a = Cls (\<lambda>c. c = a)"

definition chr_i :: "char \<Rightarrow> rx" where
  "chr_i a = Cls (\<lambda>c. lower_char c = a)"

fun lit_i :: "string \<Rightarrow> rx \<Rightarrow> rx" where
  "lit_i [] k = k"
| "lit_i (a # as) k = Seq (chr_i a) (lit_i as k)"

text \<open>The class \<open>[\d.,]\<close>.\<close>

definition numch :: "char \<Rightarrow> bool" where
  "numch c = (isdigit c \<or> c = CHR ''.'' \<or> c = CHR '','')"

text \<open>\<open>R?\$?\s*([\d.,]+)\<close>\<close>

definition rx_monetario :: rx where
  "rx_monetario =
     Seq (Opt (chr CHR ''R'')) (Seq (Opt (chr CHR ''$'')) (Seq (Star isspace) (Grp (Plus numch))))"

text \<open>\<open>([\d.,]+)\s*%\<close>\<close>

definition rx_percentual :: rx where
  "rx_percentual = Seq (Grp (Plus numch)) (Seq (Star isspace) (chr CHR ''%''))"

text \<open>\<open>(\d+)\s*(?:anos?|meses?|dias?)\<close> with \<open>re.IGNORECASE\<close>\<close>

definition rx_periodo :: rx where
  "rx_periodo =
     Seq (Grp (Plus isdigit))
       (Seq (Star isspace)
          (Alt (lit_i ''ano'' (Opt (chr_i CHR ''s'')))
            (Alt (lit_i ''mese'' (Opt (chr_i CHR ''s'')))
                 (lit_i ''dia'' (Opt (chr_i CHR ''s''))))))"

text \<open>\<open>\d+\<close> and \<open>[\d.,]+\<close>, whose whole match is what \<open>findall\<close> reports.\<close>

definition rx_digitos :: rx where
  "rx_digitos = Grp (Plus isdigit)"

definition rx_numeros :: rx where
  "rx_numeros = Grp (Plus numch)"

section \<open>Floating-point numbers\<close>

text \<open>
  A Python \<open>float\<close> is an IEEE 754 binary64 number: a finite value (a rational with a
  53-bit significand), an infinity or a NaN. The two zeros are not told apart: they
  compare equal, are both false as a condition, and division by either raises.
  Every arithmetic operation gives the exact result rounded to the nearest
  representable value, ties to the even significand (\<open>round_double\<close>).
\<close>

datatype pyfloat = Fin rat | PInf | NInf | NaN

datatype excecao = ValueError | ZeroDivisionError | OverflowError | Outra string

text \<open>\<open>pot x n\<close> is \<open>x\<close> to the power \<open>n\<close>, by repeated squaring (one for a negative \<open>n\<close>).\<close>

function pot :: "rat \<Rightarrow> int \<Rightarrow> rat" where
  "pot x n = (if n \<le> 0 then 1
              else if even n then pot (x * x) (n div 2)
              else x * pot (x * x) (n div 2))"
  by pat_completeness auto
termination
  by (relation "measure (\<lambda>(x, n). nat n)") auto

declare pot.simps [simp del]

definition pow2 :: "int \<Rightarrow> rat" where
  "pow2 e = (if 0 \<le> e then pot 2 e else 1 / pot 2 (- e))"

text \<open>\<open>ilog2 a\<close> is the exponent \<open>e\<close> with \<open>2^e \<le> a < 2^(e+1)\<close>, for \<open>a > 0\<close>.\<close>

definition ilog2 :: "rat \<Rightarrow> int" where
  "ilog2 a =
     (let (n, d) = quotient_of a; e = bitlen n - bitlen d
      in if pow2 e \<le> a then e else e - 1)"

text \<open>Rounding to the nearest integer, ties to even.\<close>

definition rne :: "rat \<Rightarrow> int" where
  "rne m =
     (let f = \<lfloor>m\<rfloor>; r = m - of_int f
      in if r < 1 / 2 then f else if 1 / 2 < r then f + 1 else if even f then f else f + 1)"

text \<open>
  The unit in the last place of \<open>a\<close> is \<open>2^(e - 52)\<close>, where \<open>e\<close> is the exponent of \<open>a\<close>
  and at least \<open>-1022\<close> (below that the numbers are subnormal). A rounded magnitude
  of \<open>2^1024\<close> or more, that is of exponent 1024 or more, is beyond the largest float
  and becomes an infinity.
\<close>

definition round_double :: "rat \<Rightarrow> pyfloat" where
  "round_double q =
     (if q = 0 then Fin 0
      else
        let a = \<bar>q\<bar>;
            e = max (ilog2 a) (- 1022);
            u = pow2 (e - 52);
            r = of_int (rne (a / u)) * u
        in if 1024 \<le> ilog2 r then (if 0 < q then PInf else NInf)
           else Fin (if 0 < q then r else - r))"

text \<open>A decimal literal of the source text, such as \<open>0.075\<close>.\<close>

definition lit :: "rat \<Rightarrow> pyfloat" where
  "lit q = round_double q"

definition fneg :: "pyfloat \<Rightarrow> pyfloat" where
  "fneg x = (case x of Fin a \<Rightarrow> Fin (- a) | PInf \<Rightarrow> NInf | NInf \<Rightarrow> PInf | NaN \<Rightarrow> NaN)"

fun fadd :: "pyfloat \<Rightarrow> pyfloat \<Rightarrow> pyfloat" where
  "fadd NaN _ = NaN"
| "fadd _ NaN = NaN"
| "fadd PInf NInf = NaN"
| "fadd NInf PInf = NaN"
| "fadd PInf _ = PInf"
| "fadd _ PInf = PInf"
| "fadd NInf _ = NInf"
| "fadd _ NInf = NInf"
| "fadd (Fin a) (Fin b) = round_double (a + b)"

definition fsub :: "pyfloat \<Rightarrow> pyfloat \<Rightarrow> pyfloat" where
  "fsub x y = fadd x (fneg y)"

text \<open>The infinity of the sign of \<open>a\<close>; the product of an infinity and zero is a NaN.\<close>

definition inf_of_sign :: "rat \<Rightarrow> pyfloat" where
  "inf_of_sign a = (if a = 0 then NaN else if 0 < a then PInf else NInf)"

fun fmul :: "pyfloat \<Rightarrow> pyfloat \<Rightarrow> pyfloat" where
  "fmul NaN _ = NaN"
| "fmul _ NaN = NaN"
| "fmul (Fin a) (Fin b) = round_double (a * b)"
| "fmul (Fin a) PInf = inf_of_sign a"
| "fmul (Fin a) NInf = inf_of_sign (- a)"
| "fmul PInf (Fin b) = inf_of_sign b"
| "fmul NInf (Fin b) = inf_of_sign (- b)"
| "fmul PInf PInf = PInf"
| "fmul NInf NInf = PInf"
| "fmul PInf NInf = NInf"
| "fmul NInf PInf = NInf"

text \<open>\<open>x / y\<close> raises \<open>ZeroDivisionError\<close> when \<open>y\<close> is zero, whatever \<open>x\<close> is.\<close>

fun fdiv :: "pyfloat \<Rightarrow> pyfloat \<Rightarrow> excecao + pyfloat" where
  "fdiv x (Fin b) =
     (if b = 0 then Inl ZeroDivisionError
      else case x of
             Fin a \<Rightarrow> Inr (round_double (a / b))
           | PInf \<Rightarrow> Inr (inf_of_sign b)
           | NInf \<Rightarrow> Inr (inf_of_sign (- b))
           | NaN \<Rightarrow> Inr NaN)"
| "fdiv NaN _ = Inr NaN"
| "fdiv _ NaN = Inr NaN"
| "fdiv (Fin a) _ = Inr (Fin 0)"
| "fdiv _ _ = Inr NaN"

text \<open>Comparisons: every comparison with a NaN is false.\<close>

fun flt :: "pyfloat \<Rightarrow> pyfloat \<Rightarrow> bool" where
  "flt NaN _ = False"
| "flt _ NaN = False"
| "flt (Fin a) (Fin b) = (a < b)"
| "flt NInf y = (y \<noteq> NInf)"
| "flt x PInf = (x \<noteq> PInf)"
| "flt _ _ = False"

definition feq :: "pyfloat \<Rightarrow> pyfloat \<Rightarrow> bool" where
  "feq x y = (x \<noteq> NaN \<and> x = y)"

definition fle :: "pyfloat \<Rightarrow> pyfloat \<Rightarrow> bool" where
  "fle x y = (flt x y \<or> feq x y)"

text \<open>\<open>max(0, x)\<close> keeps its first argument unless the second is greater.\<close>

definition max0 :: "pyfloat \<Rightarrow> pyfloat" where
  "max0 x = (if flt (Fin 0) x then x else Fin 0)"

text \<open>The truth value of a float in a condition: false exactly for zero.\<close>

definition truthy :: "pyfloat \<Rightarrow> bool" where
  "truthy x = (\<not> feq x (Fin 0))"

subsection \<open>\<open>float(s)\<close>\<close>

text \<open>
  \<open>float\<close> on a text made of digits and points, the only texts the extractor passes:
  digits with at most one point and at least one digit give the nearest float;
  anything else raises \<open>ValueError\<close>.
\<close>

definition digit_val :: "char \<Rightarrow> int" where
  "digit_val c = of_char c - 48"

definition digits_val :: "string \<Rightarrow> int" where
  "digits_val s = foldl (\<lambda>n c. 10 * n + digit_val c) 0 s"

definition float_of_str :: "string \<Rightarrow> excecao + pyfloat" where
  "float_of_str s =
     (let ip = takeWhile isdigit s; r = dropWhile isdigit s
      in case r of
           [] \<Rightarrow> if ip = [] then Inl ValueError else Inr (round_double (of_int (digits_val ip)))
         | c # fp \<Rightarrow>
             if c = CHR ''.'' \<and> list_all isdigit fp \<and> \<not> (ip = [] \<and> fp = [])
             then Inr (round_double (of_int (digits_val (ip @ fp)) / 10 ^ length fp))
             else Inl ValueError)"

subsection \<open>Formatting\<close>

text \<open>
  The format specifications \<open>.2f\<close> and \<open>,.2f\<close> (with \<open>,\<close> between groups of three
  digits): the exact value rounded to the given number of decimals, ties to even.
\<close>

function str_int :: "int \<Rightarrow> string" where
  "str_int n = (if n < 10 then [char_of (48 + n)] else str_int (n div 10) @ [char_of (48 + n mod 10)])"
  by pat_completeness auto
termination
  by (relation "measure nat") auto

function group3 :: "string \<Rightarrow> string" where
  "group3 ds = (if length ds \<le> 3 then ds
                else group3 (take (length ds - 3) ds) @ '','' @ drop (length ds - 3) ds)"
  by pat_completeness auto
termination
  by (relation "measure length") auto

definition pad_left :: "nat \<Rightarrow> string \<Rightarrow> string" where
  "pad_left k ds = replicate (k - length ds) (CHR ''0'') @ ds"

definition format_f :: "bool \<Rightarrow> nat \<Rightarrow> pyfloat \<Rightarrow> string" where
  "format_f commas k x =
     (case x of
        NaN \<Rightarrow> ''nan''
      | PInf \<Rightarrow> ''inf''
      | NInf \<Rightarrow> ''-inf''
      | Fin q \<Rightarrow>
          let n = rne (\<bar>q\<bar> * 10 ^ k);
              ip = str_int (n div 10 ^ k);
              fp = pad_left k (str_int (n mod 10 ^ k))
          in (if q < 0 then ''-'' else []) @ (if commas then group3 ip else ip)
             @ (if k = 0 then [] else ''.'' @ fp))"

section \<open>What the tools and the chat return\<close>

text \<open>
  Every tool returns a text built from a fixed template. A value of \<open>saida\<close> names the
  template and carries the values the template interpolates, in the order of the
  source; \<open>Texto\<close> is free text that comes from a collaborator (the ReAct agent, the
  language model, the arXiv search), and \<open>SemRetorno\<close> is Python's \<open>None\<close>, returned
  when a function ends without reaching a \<open>return\<close>.
\<close>

datatype rodape = Isento | AliquotaEfetiva pyfloat

datatype relatorio_ir =
  RelatorioImposto
    (ir_ano: int) (ir_rendimento: pyfloat) (ir_faixa: string) (ir_aliquota_pct: pyfloat)
    (ir_deducao: pyfloat) (ir_imposto_devido: pyfloat) (ir_renda_liquida: pyfloat)
    (ir_rodape: rodape)

datatype relatorio_pct =
  RelatorioPct (pct_valor: pyfloat) (pct_percentual: pyfloat) (pct_resultado: pyfloat)

datatype relatorio_jc =
  RelatorioJC
    (jc_principal: pyfloat) (jc_taxa_pct: pyfloat) (jc_periodo: pyfloat)
    (jc_montante: pyfloat) (jc_juros: pyfloat) (jc_rendimento_pct: pyfloat)

datatype relatorio_js =
  RelatorioJS
    (js_principal: pyfloat) (js_taxa_pct: pyfloat) (js_periodo: pyfloat)
    (js_juros: pyfloat) (js_montante: pyfloat)

datatype saida =
    Texto string
  | SemRetorno
  | RendimentoNegativo
  | RelatorioIR relatorio_ir
  | ErroCalculo excecao
  | PorcentagemNaoPositiva
  | RelatorioPorcentagem relatorio_pct
  | JurosCompostosNaoPositivos
  | RelatorioJurosCompostos relatorio_jc
  | RelatorioJurosSimples relatorio_js
  | TipoNaoSuportado string
  | ErroCalculoFinanceiro excecao
  | PedirRenda
  | PedirPorcentagem
  | PedirJurosCompostos
  | PerguntaIncompleta string
  | NaoConseguiProcessar excecao
  | ErroCritico excecao

text \<open>Sequencing of steps that may raise: the first exception ends the computation.\<close>

definition then_ok :: "excecao + 'a \<Rightarrow> ('a \<Rightarrow> excecao + 'b) \<Rightarrow> excecao + 'b" where
  "then_ok m f = (case m of Inl e \<Rightarrow> Inl e | Inr x \<Rightarrow> f x)"

section \<open>\<open>imposto_renda_melhorado\<close>\<close>

type_synonym faixa = "pyfloat \<times> pyfloat \<times> pyfloat \<times> string"

definition faixas_2024 :: "faixa list" where
  "faixas_2024 =
     [(lit 28559.70, lit 0.0, Fin 0, ''Isento''),
      (lit 42253.25, lit 0.075, lit 2141.98, ''7,5%''),
      (lit 56717.56, lit 0.15, lit 5304.90, ''15%''),
      (lit 74414.84, lit 0.225, lit 9756.12, ''22,5%''),
      (PInf, lit 0.275, lit 14067.51, ''27,5%'')]"

definition faixas_outros_anos :: "faixa list" where
  "faixas_outros_anos =
     [(Fin 28000, lit 0.0, Fin 0, ''Isento''),
      (Fin 42000, lit 0.075, Fin 2100, ''7,5%''),
      (Fin 56000, lit 0.15, Fin 5300, ''15%''),
      (Fin 74000, lit 0.225, Fin 9700, ''22,5%''),
      (PInf, lit 0.275, Fin 14000, ''27,5%'')]"

text \<open>
  The body of the \<open>for\<close> loop: the first bracket whose limit is not below the income
  gives the report; the division for the effective rate is inside the \<open>try\<close>.
\<close>

fun percorrer_faixas :: "int \<Rightarrow> pyfloat \<Rightarrow> faixa list \<Rightarrow> excecao + saida" where
  "percorrer_faixas ano rendimento [] = Inr SemRetorno"
| "percorrer_faixas ano rendimento ((limite, aliquota, deducao, faixa_nome) # resto) =
     (if fle rendimento limite then
        let imposto_bruto = fmul rendimento aliquota;
            imposto_devido = max0 (fsub imposto_bruto deducao);
            resultado = RelatorioImposto ano rendimento faixa_nome (fmul aliquota (Fin 100))
                          deducao imposto_devido (fsub rendimento imposto_devido)
        in if feq imposto_devido (Fin 0) then Inr (RelatorioIR (resultado Isento))
           else then_ok (fdiv imposto_devido rendimento)
                  (\<lambda>q. Inr (RelatorioIR (resultado (AliquotaEfetiva (fmul q (Fin 100))))))
      else percorrer_faixas ano rendimento resto)"

definition imposto_renda_melhorado :: "pyfloat \<Rightarrow> int \<Rightarrow> saida" where
  "imposto_renda_melhorado rendimento ano =
     (if flt rendimento (Fin 0) then RendimentoNegativo
      else case percorrer_faixas ano rendimento
                  (if ano = 2024 then faixas_2024 else faixas_outros_anos) of
             Inl e \<Rightarrow> ErroCalculo e
           | Inr resultado \<Rightarrow> resultado)"

section \<open>\<open>calculadora_financeira_geral\<close>\<close>

text \<open>
  The keyword arguments are a dictionary from names to numbers; \<open>kwargs.get(k, 0)\<close> is
  \<open>obter\<close>. The operator \<open>**\<close> on floats goes through the C library's \<open>pow\<close>, whose
  rounding is the platform's, and raises \<open>OverflowError\<close> when the result is out of
  range: it is a parameter of the calculator.
\<close>

type_synonym potencia = "pyfloat \<Rightarrow> pyfloat \<Rightarrow> excecao + pyfloat"

definition obter :: "(string \<rightharpoonup> pyfloat) \<Rightarrow> string \<Rightarrow> pyfloat" where
  "obter kwargs k = (case kwargs k of None \<Rightarrow> Fin 0 | Some v \<Rightarrow> v)"

definition porcentagem :: "(string \<rightharpoonup> pyfloat) \<Rightarrow> excecao + saida" where
  "porcentagem kwargs =
     (let valor = obter kwargs ''valor'';
          percentual = obter kwargs ''percentual''
      in if fle valor (Fin 0) \<or> fle percentual (Fin 0) then Inr PorcentagemNaoPositiva
         else then_ok (fdiv percentual (Fin 100))
                (\<lambda>p. Inr (RelatorioPorcentagem (RelatorioPct valor percentual (fmul valor p)))))"

definition juros_compostos :: "potencia \<Rightarrow> (string \<rightharpoonup> pyfloat) \<Rightarrow> excecao + saida" where
  "juros_compostos pow kwargs =
     (let principal = obter kwargs ''principal''
      in then_ok (fdiv (obter kwargs ''taxa'') (Fin 100)) (\<lambda>taxa.
           let periodo = obter kwargs ''periodo''
           in if fle principal (Fin 0) \<or> fle taxa (Fin 0) \<or> fle periodo (Fin 0)
              then Inr JurosCompostosNaoPositivos
              else then_ok (pow (fadd (Fin 1) taxa) periodo) (\<lambda>p.
                     let montante = fmul principal p;
                         juros = fsub montante principal
                     in then_ok (fdiv montante principal) (\<lambda>q.
                          Inr (RelatorioJurosCompostos
                                 (RelatorioJC principal (fmul taxa (Fin 100)) periodo montante juros
                                    (fmul (fsub q (Fin 1)) (Fin 100))))))))"

definition juros_simples :: "(string \<rightharpoonup> pyfloat) \<Rightarrow> excecao + saida" where
  "juros_simples kwargs =
     (let principal = obter kwargs ''principal''
      in then_ok (fdiv (obter kwargs ''taxa'') (Fin 100)) (\<lambda>taxa.
           let periodo = obter kwargs ''periodo'';
               juros = fmul (fmul principal taxa) periodo;
               montante = fadd principal juros
           in Inr (RelatorioJurosSimples
                     (RelatorioJS principal (fmul taxa (Fin 100)) periodo juros montante))))"

definition calculadora_financeira_geral ::
    "potencia \<Rightarrow> string \<Rightarrow> (string \<rightharpoonup> pyfloat) \<Rightarrow> saida" where
  "calculadora_financeira_geral pow tipo kwargs =
     (case (if lower tipo = ''porcentagem'' then porcentagem kwargs
            else if lower tipo = ''juros_compostos'' then juros_compostos pow kwargs
            else if lower tipo = ''juros_simples'' then juros_simples kwargs
            else Inr (TipoNaoSuportado tipo)) of
        Inl e \<Rightarrow> ErroCalculoFinanceiro e
      | Inr resultado \<Rightarrow> resultado)"

section \<open>\<open>extrair_valores_numericos\<close>\<close>

definition extrair_valores_numericos :: "string \<Rightarrow> excecao + (string \<rightharpoonup> pyfloat)" where
  "extrair_valores_numericos texto =
     then_ok
       (case findall rx_monetario texto of
          [] \<Rightarrow> Inr Map.empty
        | m # _ \<Rightarrow>
            then_ok (float_of_str (replace_char CHR '','' ''.'' (replace_char CHR ''.'' [] m)))
              (\<lambda>v. Inr [''principal'' \<mapsto> v, ''valor'' \<mapsto> v]))
       (\<lambda>valores.
          then_ok
            (case findall rx_percentual texto of
               [] \<Rightarrow> Inr valores
             | p # _ \<Rightarrow>
                 then_ok (float_of_str (replace_char CHR '','' ''.'' p))
                   (\<lambda>v. Inr (valores(''taxa'' \<mapsto> v, ''percentual'' \<mapsto> v))))
            (\<lambda>valores.
               case findall rx_periodo texto of
                 [] \<Rightarrow> Inr valores
               | p # _ \<Rightarrow> then_ok (float_of_str p) (\<lambda>v. Inr (valores(''periodo'' \<mapsto> v)))))"

section \<open>\<open>chat\<close>\<close>

text \<open>
  The collaborators of \<open>chat\<close>: the ReAct agent (the text of its response to a message,
  or the exception it raises; an agent with neither \<open>query\<close> nor \<open>chat\<close> raises
  \<open>AttributeError\<close>), the language model's completion of the general prompt for a
  message, and the academic search (the cleaning of the query followed by
  \<open>consulta_arxiv_melhorada\<close>, which catches its own exceptions).
\<close>

record ambiente =
  agente :: "string \<Rightarrow> excecao + string"
  llm_complete :: "string \<Rightarrow> excecao + string"
  busca_academica :: "string \<Rightarrow> string"
  potencia :: potencia

text \<open>The lines \<open>chat\<close> prints on the console, in order, tell which path it took.\<close>

datatype evento =
    Processando
  | TentandoReAct
  | ReActSucesso
  | ReActInadequada
  | ReActFalhou
  | AnaliseManual
  | DetectadoIR
  | DetectadoPorcentagem
  | DetectadoJurosCompostos
  | DetectadoBuscaAcademica
  | DetectadoPerguntaIncompleta
  | ConhecimentoGeral
  | ErroCriticoChat

text \<open>\<open>any(term in s for term in termos)\<close>\<close>

definition contem_algum :: "string list \<Rightarrow> string \<Rightarrow> bool" where
  "contem_algum termos s = list_ex (\<lambda>term. sublist term s) termos"

definition indicadores_de_falha :: "string list" where
  "indicadores_de_falha = [''error'', ''erro'', ''failed'', ''none'']"

text \<open>The test on the agent's answer (\<open>result\<close> is already stripped).\<close>

definition resposta_util :: "string \<Rightarrow> bool" where
  "resposta_util result =
     (result \<noteq> [] \<and> 20 < length result \<and> \<not> contem_algum indicadores_de_falha (lower result))"

definition termos_ir :: "string list" where
  "termos_ir = [''imposto de renda'', ''calcular ir'', ''ir de'']"

definition termos_porcentagem :: "string list" where
  "termos_porcentagem = [''% de'', ''porcent'', ''percentual de'']"

definition termos_juros_compostos :: "string list" where
  "termos_juros_compostos = [''juros compostos'', ''compound interest'', ''montante'']"

definition termos_busca_academica :: "string list" where
  "termos_busca_academica =
     [''artigos cient'' @ [CHR 0xED] @ ''ficos'', ''papers'', ''arxiv'',
      ''pesquisa acad'' @ [CHR 0xEA] @ ''mica'']"

text \<open>\<open>valores.get(k)\<close> as a condition: the key is there and its value is not zero.\<close>

definition get_verdadeiro :: "(string \<rightharpoonup> pyfloat) \<Rightarrow> string \<Rightarrow> bool" where
  "get_verdadeiro valores k = (case valores k of None \<Rightarrow> False | Some v \<Rightarrow> truthy v)"

text \<open>The branches of the manual analysis; each may raise (the extractor does).\<close>

definition ramo_ir :: "string \<Rightarrow> excecao + saida" where
  "ramo_ir message =
     then_ok (extrair_valores_numericos message) (\<lambda>valores.
       if get_verdadeiro valores ''principal''
       then Inr (imposto_renda_melhorado (the (valores ''principal'')) 2024)
       else Inr PedirRenda)"

definition ramo_porcentagem :: "potencia \<Rightarrow> string \<Rightarrow> excecao + saida" where
  "ramo_porcentagem pow message =
     then_ok (extrair_valores_numericos message) (\<lambda>valores.
       if get_verdadeiro valores ''valor'' \<and> get_verdadeiro valores ''percentual''
       then Inr (calculadora_financeira_geral pow ''porcentagem'' valores)
       else Inr PedirPorcentagem)"

definition ramo_juros_compostos :: "potencia \<Rightarrow> string \<Rightarrow> excecao + saida" where
  "ramo_juros_compostos pow message =
     then_ok (extrair_valores_numericos message) (\<lambda>valores.
       if list_all (\<lambda>k. valores k \<noteq> None) [''principal'', ''taxa'', ''periodo'']
       then Inr (calculadora_financeira_geral pow ''juros_compostos'' valores)
       else Inr PedirJurosCompostos)"

definition ramo_pergunta_incompleta :: "string \<Rightarrow> excecao + saida" where
  "ramo_pergunta_incompleta message =
     (case findall rx_numeros message of
        [] \<Rightarrow> Inr SemRetorno
      | n # _ \<Rightarrow>
          Inr (PerguntaIncompleta (replace_char CHR '','' ''.'' (replace_char CHR ''.'' [] n))))"

definition ramo_geral :: "ambiente \<Rightarrow> string \<Rightarrow> excecao + saida" where
  "ramo_geral env message =
     (case llm_complete env message of
        Inl e \<Rightarrow> Inr (NaoConseguiProcessar e)
      | Inr response \<Rightarrow> Inr (Texto (strip response)))"

text \<open>The outermost \<open>except\<close> of \<open>chat\<close>.\<close>

definition capturar :: "evento list \<Rightarrow> excecao + saida \<Rightarrow> evento list \<times> saida" where
  "capturar evs r =
     (case r of Inl e \<Rightarrow> (evs @ [ErroCriticoChat], ErroCritico e) | Inr s \<Rightarrow> (evs, s))"

definition analise_manual :: "ambiente \<Rightarrow> string \<Rightarrow> evento list \<times> saida" where
  "analise_manual env message =
     (let message_lower = lower message
      in if contem_algum termos_ir message_lower
         then capturar [AnaliseManual, DetectadoIR] (ramo_ir message)
         else if contem_algum termos_porcentagem message_lower
         then capturar [AnaliseManual, DetectadoPorcentagem]
                (ramo_porcentagem (potencia env) message)
         else if contem_algum termos_juros_compostos message_lower
         then capturar [AnaliseManual, DetectadoJurosCompostos]
                (ramo_juros_compostos (potencia env) message)
         else if contem_algum termos_busca_academica message_lower
         then capturar [AnaliseManual, DetectadoBuscaAcademica]
                (Inr (Texto (busca_academica env message)))
         else if sublist ''porcentagem'' message_lower
                 \<and> list_ex (\<lambda>num. sublist num message) (findall rx_digitos message)
         then capturar [AnaliseManual, DetectadoPerguntaIncompleta]
                (ramo_pergunta_incompleta message)
         else capturar [AnaliseManual, ConhecimentoGeral] (ramo_geral env message))"

definition chat :: "ambiente \<Rightarrow> string \<Rightarrow> evento list \<times> saida" where
  "chat env message =
     (case agente env message of
        Inl e \<Rightarrow>
          (let (evs, s) = analise_manual env message
           in ([Processando, TentandoReAct, ReActFalhou] @ evs, s))
      | Inr response \<Rightarrow>
          (let result = strip response
           in if resposta_util result
              then ([Processando, TentandoReAct, ReActSucesso], Texto result)
              else (let (evs, s) = analise_manual env message
                    in ([Processando, TentandoReAct, ReActInadequada] @ evs, s))))"

section \<open>The classification, in the words of the specification\<close>

text \<open>
  The specification describes the manual analysis as \<open>classify\<close>, an ordered chain of
  rules of which the first that applies wins, followed by the dispatch on the intent.
  These definitions follow that description; \<open>analise_manual\<close> above follows the
  \<open>if\<close>/\<open>elif\<close> chain of the source, and the two are compared below.
\<close>

datatype intencao =
  Tax | Percentage | Compound_interest | Scientific_search | Incomplete_percentage | General

definition regras :: "((string \<Rightarrow> bool) \<times> intencao) list" where
  "regras =
     [(\<lambda>text. contem_algum termos_ir (lower text), Tax),
      (\<lambda>text. contem_algum termos_porcentagem (lower text), Percentage),
      (\<lambda>text. contem_algum termos_juros_compostos (lower text), Compound_interest),
      (\<lambda>text. contem_algum termos_busca_academica (lower text), Scientific_search),
      (\<lambda>text. sublist ''porcentagem'' (lower text) \<and> list_ex isdigit text,
         Incomplete_percentage)]"

definition classify :: "string \<Rightarrow> intencao" where
  "classify text =
     (case find (\<lambda>(applies, i). applies text) regras of
        None \<Rightarrow> General
      | Some (applies, i) \<Rightarrow> i)"

fun despachar :: "ambiente \<Rightarrow> intencao \<Rightarrow> string \<Rightarrow> evento list \<times> saida" where
  "despachar env Tax message = capturar [AnaliseManual, DetectadoIR] (ramo_ir message)"
| "despachar env Percentage message =
     capturar [AnaliseManual, DetectadoPorcentagem] (ramo_porcentagem (potencia env) message)"
| "despachar env Compound_interest message =
     capturar [AnaliseManual, DetectadoJurosCompostos]
       (ramo_juros_compostos (potencia env) message)"
| "despachar env Scientific_search message =
     capturar [AnaliseManual, DetectadoBuscaAcademica] (Inr (Texto (busca_academica env message)))"
| "despachar env Incomplete_percentage message =
     capturar [AnaliseManual, DetectadoPerguntaIncompleta] (ramo_pergunta_incompleta message)"
| "despachar env General message =
     capturar [AnaliseManual, ConhecimentoGeral] (ramo_geral env message)"

section \<open>Inside a bracket of the table\<close>

text \<open>
  An income lies strictly inside bracket \<open>k\<close> of a table when it is not negative, above
  the limit of the bracket before (if there is one) and below the limit of bracket \<open>k\<close>.
\<close>

definition dentro_da_faixa :: "faixa list \<Rightarrow> nat \<Rightarrow> pyfloat \<Rightarrow> bool" where
  "dentro_da_faixa faixas k rendimento =
     (k < length faixas \<and> fle (Fin 0) rendimento
      \<and> (k = 0 \<or> flt (fst (faixas ! (k - 1))) rendimento)
      \<and> flt rendimento (fst (faixas ! k)))"

section \<open>Environments for the examples\<close>

text \<open>
  A reference \<open>**\<close> for a finite base of at least one and a whole exponent that is not
  negative: the exact power, correctly rounded, and \<open>OverflowError\<close> beyond the range
  of the floats, that is from \<open>2^1024 - 2^970\<close> on, half a unit in the last place above
  the largest float. Outside this domain it stands for no Python behaviour and answers
  with an exception of its own.
\<close>

definition limiar_de_transbordo :: rat where
  "limiar_de_transbordo = pot 2 1024 - pot 2 970"

definition potencia_referencia :: potencia where
  "potencia_referencia x y =
     (case (x, y) of
        (Fin a, Fin b) \<Rightarrow>
          if 1 \<le> a \<and> 0 \<le> b \<and> of_int \<lfloor>b\<rfloor> = b
          then (if limiar_de_transbordo \<le> pot a \<lfloor>b\<rfloor> then Inl OverflowError
                else Inr (round_double (pot a \<lfloor>b\<rfloor>)))
          else Inl (Outra ''fora do dominio'')
      | _ \<Rightarrow> Inl (Outra ''fora do dominio''))"

text \<open>An agent that fails on every message, so that \<open>chat\<close> goes to the manual analysis.\<close>

definition ambiente_sem_agente :: ambiente where
  "ambiente_sem_agente =
     \<lparr>agente = (\<lambda>m. Inl (Outra ''agente indisponivel'')),
      llm_complete = (\<lambda>m. Inr ''resposta do modelo''),
      busca_academica = (\<lambda>m. ''resultados da busca''),
      potencia = potencia_referencia\<rparr>"

text \<open>An agent that answers every message with a well-formed text that mentions an error.\<close>

definition ambiente_agente_com_erro :: ambiente where
  "ambiente_agente_com_erro =
     \<lparr>agente = (\<lambda>m. Inr ''  The tool reported an Error while computing.  ''),
      llm_complete = (\<lambda>m. Inr ''resposta do modelo''),
      busca_academica = (\<lambda>m. ''resultados da busca''),
      potencia = potencia_referencia\<rparr>"

section \<open>Negative income\<close>

lemma max0_nao_negativo: "\<not> flt (max0 x) (Fin 0)"
  by (cases x) (auto simp: max0_def)

lemma percorrer_faixas_nao_negativo:
  "percorrer_faixas ano rendimento fs = Inr (RelatorioIR r) \<Longrightarrow> \<not> flt (ir_imposto_devido r) (Fin 0)"
proof (induction fs)
  case Nil
  then show ?case by simp
next
  case (Cons f fs)
  obtain limite aliquota deducao nome where f: "f = (limite, aliquota, deducao, nome)"
    by (cases f) auto
  show ?case
  proof (cases "fle rendimento limite")
    case True
    with Cons.prems f show ?thesis
      by (auto simp: Let_def then_ok_def max0_nao_negativo split: if_splits sum.splits)
  next
    case False
    with Cons f show ?thesis by simp
  qed
qed

text \<open>
  C6. A strictly negative income (minus infinity included) is answered with the
  rejection message, whatever the year; and no report of the calculator, for any
  income and year, shows a tax due below zero.
\<close>

theorem imposto_renda_rendimento_negativo:
  "(flt rendimento (Fin 0) \<longrightarrow> imposto_renda_melhorado rendimento ano = RendimentoNegativo)
   \<and> (imposto_renda_melhorado rendimento ano = RelatorioIR r
        \<longrightarrow> \<not> flt (ir_imposto_devido r) (Fin 0))"
proof (intro conjI impI)
  assume "flt rendimento (Fin 0)"
  then show "imposto_renda_melhorado rendimento ano = RendimentoNegativo"
    by (simp add: imposto_renda_melhorado_def)
next
  assume a: "imposto_renda_melhorado rendimento ano = RelatorioIR r"
  then have "percorrer_faixas ano rendimento
               (if ano = 2024 then faixas_2024 else faixas_outros_anos) = Inr (RelatorioIR r)"
    by (auto simp: imposto_renda_melhorado_def split: if_splits sum.splits)
  then show "\<not> flt (ir_imposto_devido r) (Fin 0)"
    by (rule percorrer_faixas_nao_negativo)
qed

theorem imposto_renda_rendimento_negativo_witness:
  "flt (Fin (- 1000)) (Fin 0) \<and> imposto_renda_melhorado (Fin (- 1000)) 2024 = RendimentoNegativo
   \<and> flt NInf (Fin 0) \<and> imposto_renda_melhorado NInf 2023 = RendimentoNegativo"
  using imposto_renda_rendimento_negativo [of "Fin (- 1000)" 2024]
    imposto_renda_rendimento_negativo [of NInf 2023]
  by simp

section \<open>The quality gate on the agent's answer\<close>

lemma sublist_lower: "sublist t s \<Longrightarrow> sublist (lower t) (lower s)"
  unfolding lower_def by (rule map_mono_sublist)

lemma dropWhile_keeps:
  assumes "t \<noteq> []" "\<not> P (hd t)"
  shows "\<exists>ps'. dropWhile P (ps @ t @ ss) = ps' @ t @ ss"
proof (cases "\<forall>x\<in>set ps. P x")
  case True
  from assms obtain x xs where t: "t = x # xs" "\<not> P x" by (cases t) auto
  from True have "dropWhile P (ps @ t @ ss) = dropWhile P (t @ ss)"
    by (simp add: dropWhile_append)
  also have "\<dots> = t @ ss" using t by simp
  finally show ?thesis by (intro exI[of _ "[]"]) simp
next
  case False
  then have "dropWhile P (ps @ t @ ss) = dropWhile P ps @ t @ ss"
    by (auto simp: dropWhile_append)
  then show ?thesis by blast
qed

lemma sublist_strip:
  assumes "sublist t s" "t \<noteq> []" "\<not> isspace (hd t)" "\<not> isspace (last t)"
  shows "sublist t (strip s)"
proof -
  from assms(1) obtain ps ss where s: "s = ps @ t @ ss" by (auto simp: sublist_def)
  from dropWhile_keeps[of t isspace ps ss] assms(2,3) obtain ps' where
    1: "dropWhile isspace (ps @ t @ ss) = ps' @ t @ ss" by blast
  have rt: "rev t \<noteq> []" "\<not> isspace (hd (rev t))"
    using assms(2,4) by (simp_all add: hd_rev)
  from dropWhile_keeps[of "rev t" isspace "rev ss" "rev ps'"] rt obtain ss' where
    2: "dropWhile isspace (rev ss @ rev t @ rev ps') = ss' @ rev t @ rev ps'" by blast
  have "strip s = ps' @ t @ rev ss'"
    unfolding strip_def s 1 using 2 by simp
  then show ?thesis by (auto simp: sublist_def)
qed

lemma error_sem_espacos:
  assumes "lower t = ''error''"
  shows "t \<noteq> [] \<and> \<not> isspace (hd t) \<and> \<not> isspace (last t)"
proof -
  have sp: "isspace c \<Longrightarrow> lower_char c = c" for c
    by (auto simp: isspace_def lower_char_def Let_def)
  have ns: "\<not> isspace c" if "c \<in> set ''error''" for c
    using that by (auto simp: isspace_def)
  from assms have ne: "t \<noteq> []" by (auto simp: lower_def)
  have "lower_char (hd t) \<in> set ''error''" "lower_char (last t) \<in> set ''error''"
    using assms ne unfolding lower_def
    by (metis hd_map list.set_sel(1) map_is_Nil_conv, metis last_map last_in_set map_is_Nil_conv)
  with sp ns ne show ?thesis by metis
qed

lemma error_rejeitado:
  assumes "lower t = ''error''" "sublist t response"
  shows "\<not> resposta_util (strip response)"
proof -
  from error_sem_espacos[OF assms(1)] assms(2) have "sublist t (strip response)"
    by (intro sublist_strip) auto
  then have "sublist ''error'' (lower (strip response))"
    using sublist_lower assms(1) by metis
  then show ?thesis
    by (simp add: resposta_util_def contem_algum_def indicadores_de_falha_def)
qed

text \<open>
  C4. The agent's answer is accepted (the chat stops after \<open>ReActSucesso\<close>) only if
  the agent returned a text which, once stripped, is not empty, is longer than 20
  characters and, in lower case, holds none of \<open>error\<close>, \<open>erro\<close>, \<open>failed\<close>, \<open>none\<close>.
  And whenever the agent's text holds \<open>error\<close> in any mix of cases (a piece \<open>t\<close> whose
  lower case is \<open>error\<close>), the answer is rejected and the chat goes on with the manual
  analysis, whose result it returns, however long or well-formed the text is.
\<close>

theorem chat_quality_gate:
  "(fst (chat env message) = [Processando, TentandoReAct, ReActSucesso] \<longrightarrow>
      (\<exists>response. agente env message = Inr response
         \<and> snd (chat env message) = Texto (strip response)
         \<and> strip response \<noteq> [] \<and> 20 < length (strip response)
         \<and> \<not> sublist ''error'' (lower (strip response))
         \<and> \<not> sublist ''erro'' (lower (strip response))
         \<and> \<not> sublist ''failed'' (lower (strip response))
         \<and> \<not> sublist ''none'' (lower (strip response))))
   \<and> (agente env message = Inr response \<and> lower t = ''error'' \<and> sublist t response \<longrightarrow>
        chat env message =
          ([Processando, TentandoReAct, ReActInadequada] @ fst (analise_manual env message),
           snd (analise_manual env message)))"
proof (intro conjI impI)
  assume a: "fst (chat env message) = [Processando, TentandoReAct, ReActSucesso]"
  show "\<exists>response. agente env message = Inr response
         \<and> snd (chat env message) = Texto (strip response)
         \<and> strip response \<noteq> [] \<and> 20 < length (strip response)
         \<and> \<not> sublist ''error'' (lower (strip response))
         \<and> \<not> sublist ''erro'' (lower (strip response))
         \<and> \<not> sublist ''failed'' (lower (strip response))
         \<and> \<not> sublist ''none'' (lower (strip response))"
  proof (cases "agente env message")
    case (Inl e)
    with a show ?thesis by (simp add: chat_def split_def Let_def)
  next
    case (Inr response)
    with a have "resposta_util (strip response)"
      by (auto simp: chat_def Let_def split_def split: if_splits)
    with Inr show ?thesis
      by (simp add: chat_def resposta_util_def contem_algum_def indicadores_de_falha_def)
  qed
next
  assume "agente env message = Inr response \<and> lower t = ''error'' \<and> sublist t response"
  then have r: "agente env message = Inr response" and "\<not> resposta_util (strip response)"
    using error_rejeitado by auto
  then show "chat env message =
          ([Processando, TentandoReAct, ReActInadequada] @ fst (analise_manual env message),
           snd (analise_manual env message))"
    by (simp add: chat_def split_def Let_def)
qed

theorem chat_quality_gate_witness:
  "agente ambiente_agente_com_erro ''Quanto rende a poupanca?''
     = Inr ''  The tool reported an Error while computing.  ''
   \<and> lower ''Error'' = ''error''
   \<and> sublist ''Error'' ''  The tool reported an Error while computing.  ''
   \<and> 20 < length (strip ''  The tool reported an Error while computing.  '')
   \<and> chat ambiente_agente_com_erro ''Quanto rende a poupanca?'' =
       ([Processando, TentandoReAct, ReActInadequada, AnaliseManual, ConhecimentoGeral],
        Texto ''resposta do modelo'')"
proof -
  have 1: "agente ambiente_agente_com_erro ''Quanto rende a poupanca?''
     = Inr ''  The tool reported an Error while computing.  ''"
    by (simp add: ambiente_agente_com_erro_def)
  have 2: "lower ''Error'' = ''error''" by code_simp
  have 3: "sublist ''Error'' ''  The tool reported an Error while computing.  ''" by code_simp
  have 4: "20 < length (strip ''  The tool reported an Error while computing.  '')" by code_simp
  have 5: "analise_manual ambiente_agente_com_erro ''Quanto rende a poupanca?''
     = ([AnaliseManual, ConhecimentoGeral], Texto ''resposta do modelo'')" by code_simp
  from chat_quality_gate[of ambiente_agente_com_erro "''Quanto rende a poupanca?''"
      "''  The tool reported an Error while computing.  ''" "''Error''"] 1 2 3 4 5
  show ?thesis by simp
qed

section \<open>The income tax inside a bracket\<close>

lemma tabela_2024:
  "faixas_2024 =
     [(Fin (7850430558948557 / 274877906944), Fin 0, Fin 0, ''Isento''),
      (Fin (169013 / 4), Fin (5404319552844595 / 72057594037927936),
       Fin (4710263832927273 / 2199023255552), ''7,5%''),
      (Fin (974400261235671 / 17179869184), Fin (5404319552844595 / 36028797018963968),
       Fin (2916399617094451 / 549755813888), ''15%''),
      (Fin (2556874433096581 / 34359738368), Fin (8106479329266893 / 36028797018963968),
       Fin (5363483690988995 / 549755813888), ''22,5%''),
      (PInf, Fin (2476979795053773 / 9007199254740992),
       Fin (7733695409427579 / 549755813888), ''27,5%'')]"
  by code_simp

lemma percorrer_passa:
  "\<not> fle r (fst f) \<Longrightarrow> percorrer_faixas ano r (f # fs) = percorrer_faixas ano r fs"
  by (cases f) simp

lemma fdiv_nao_zero: "flt (Fin 0) r \<Longrightarrow> \<exists>q. fdiv d r = Inr q"
  by (cases r; cases d) auto

lemma max0_casos: "max0 y = Fin 0 \<or> flt (Fin 0) (max0 y)"
  by (simp add: max0_def)

lemma feq_zero: "feq d (Fin 0) \<longleftrightarrow> d = Fin 0"
  by (auto simp: feq_def)

lemma percorrer_acerta:
  assumes "fle r limite"
    and "flt (Fin 0) r \<or> max0 (fsub (fmul r aliq) ded) = Fin 0"
  shows "\<exists>rel. percorrer_faixas ano r ((limite, aliq, ded, nome) # resto) = Inr (RelatorioIR rel)
           \<and> ir_faixa rel = nome
           \<and> ir_imposto_devido rel = max0 (fsub (fmul r aliq) ded)
           \<and> (ir_rodape rel = Isento \<longleftrightarrow> feq (ir_imposto_devido rel) (Fin 0))
           \<and> ((\<exists>q. fdiv (ir_imposto_devido rel) r = Inr q
                     \<and> ir_rodape rel = AliquotaEfetiva (fmul q (Fin 100)))
                \<longleftrightarrow> flt (Fin 0) (ir_imposto_devido rel))"
proof (cases "max0 (fsub (fmul r aliq) ded) = Fin 0")
  case True
  with assms(1) show ?thesis
    by (simp add: Let_def feq_zero del: fdiv.simps)
next
  case False
  with max0_casos have pos: "flt (Fin 0) (max0 (fsub (fmul r aliq) ded))" by blast
  from False assms(2) have "flt (Fin 0) r" by blast
  then obtain q where q: "fdiv (max0 (fsub (fmul r aliq) ded)) r = Inr q"
    using fdiv_nao_zero by blast
  with assms(1) False pos show ?thesis
    by (simp add: Let_def feq_zero then_ok_def del: fdiv.simps)
qed

lemma flt_trans: "flt a b \<Longrightarrow> flt b c \<Longrightarrow> flt a c"
  by (cases a; cases b; cases c) auto

lemma flt_nao_fle: "flt a b \<Longrightarrow> \<not> fle b a"
  by (cases a; cases b) (auto simp: fle_def feq_def)

lemma indice_menor_5: "(i::nat) < 5 \<Longrightarrow> i = 0 \<or> i = 1 \<or> i = 2 \<or> i = 3 \<or> i = 4"
  by arith

lemma tamanho_tabela_2024: "length faixas_2024 = 5"
  by (simp add: faixas_2024_def)

lemma limites_positivos: "i < 5 \<Longrightarrow> flt (Fin 0) (fst (faixas_2024 ! i))"
  by (drule indice_menor_5) (auto simp: tabela_2024)

lemma limites_crescentes:
  "Suc i < 5 \<Longrightarrow> flt (fst (faixas_2024 ! i)) (fst (faixas_2024 ! Suc i))"
proof -
  assume "Suc i < 5"
  then have "i = 0 \<or> i = 1 \<or> i = 2 \<or> i = 3" by arith
  then show ?thesis by (auto simp: tabela_2024)
qed

lemma limites_abaixo:
  "k < 5 \<Longrightarrow> j \<le> k \<Longrightarrow> flt (fst (faixas_2024 ! k)) r \<Longrightarrow> flt (fst (faixas_2024 ! j)) r"
proof (induction k)
  case 0
  then show ?case by simp
next
  case (Suc k)
  show ?case
  proof (cases "j = Suc k")
    case True
    with Suc.prems show ?thesis by simp
  next
    case False
    with Suc.prems have jk: "j \<le> k" by simp
    from Suc.prems have c: "flt (fst (faixas_2024 ! k)) (fst (faixas_2024 ! Suc k))"
      by (intro limites_crescentes) simp
    from c Suc.prems(3) have "flt (fst (faixas_2024 ! k)) r" by (rule flt_trans)
    with Suc.IH jk Suc.prems(1) show ?thesis by simp
  qed
qed

lemma percorrer_salta:
  "k \<le> length fs \<Longrightarrow> (\<And>j. j < k \<Longrightarrow> \<not> fle r (fst (fs ! j))) \<Longrightarrow>
     percorrer_faixas ano r fs = percorrer_faixas ano r (drop k fs)"
proof (induction fs arbitrary: k)
  case Nil
  then show ?case by simp
next
  case (Cons f fs)
  show ?case
  proof (cases k)
    case 0
    then show ?thesis by simp
  next
    case (Suc k')
    from Cons.prems(2)[of 0] Suc have "\<not> fle r (fst f)" by simp
    then have 1: "percorrer_faixas ano r (f # fs) = percorrer_faixas ano r fs"
      by (rule percorrer_passa)
    have "percorrer_faixas ano r fs = percorrer_faixas ano r (drop k' fs)"
    proof (rule Cons.IH)
      show "k' \<le> length fs" using Cons.prems(1) Suc by simp
      fix j assume "j < k'"
      with Cons.prems(2)[of "Suc j"] Suc show "\<not> fle r (fst (fs ! j))" by simp
    qed
    with 1 Suc show ?thesis by simp
  qed
qed

lemma imposto_zero_na_faixa_isenta: "max0 (fsub (fmul (Fin 0) (Fin 0)) (Fin 0)) = Fin 0"
  by (simp add: max0_def fsub_def fneg_def round_double_def)

lemma imposto_renda_dentro:
  assumes A: "dentro_da_faixa faixas_2024 k rendimento"
    and B: "faixas_2024 ! k = (limite, aliquota, deducao, nome)"
  shows "\<exists>rel. imposto_renda_melhorado rendimento 2024 = RelatorioIR rel
           \<and> ir_faixa rel = nome
           \<and> ir_imposto_devido rel = max0 (fsub (fmul rendimento aliquota) deducao)
           \<and> (ir_rodape rel = Isento \<longleftrightarrow> feq (ir_imposto_devido rel) (Fin 0))
           \<and> ((\<exists>q. fdiv (ir_imposto_devido rel) rendimento = Inr q
                     \<and> ir_rodape rel = AliquotaEfetiva (fmul q (Fin 100)))
                \<longleftrightarrow> flt (Fin 0) (ir_imposto_devido rel))"
proof -
  from A have k5: "k < 5" and nn: "fle (Fin 0) rendimento"
    and lo: "k = 0 \<or> flt (fst (faixas_2024 ! (k - 1))) rendimento"
    and hi: "flt rendimento (fst (faixas_2024 ! k))"
    by (simp_all add: dentro_da_faixa_def tamanho_tabela_2024)
  from nn have naoneg: "\<not> flt rendimento (Fin 0)"
    by (cases rendimento) (auto simp: fle_def feq_def)
  have salta: "\<not> fle rendimento (fst (faixas_2024 ! j))" if "j < k" for j
  proof -
    from that lo have l: "flt (fst (faixas_2024 ! (k - 1))) rendimento" by auto
    from that k5 have "k - 1 < 5" "j \<le> k - 1" by simp_all
    from limites_abaixo[OF this l] show ?thesis by (rule flt_nao_fle)
  qed
  have "percorrer_faixas 2024 rendimento faixas_2024 =
          percorrer_faixas 2024 rendimento (drop k faixas_2024)"
    using k5 salta by (intro percorrer_salta) (simp_all add: tamanho_tabela_2024)
  also have "drop k faixas_2024 = (limite, aliquota, deducao, nome) # drop (Suc k) faixas_2024"
    using k5 B by (simp add: Cons_nth_drop_Suc[symmetric] tamanho_tabela_2024)
  finally have P: "percorrer_faixas 2024 rendimento faixas_2024 =
      percorrer_faixas 2024 rendimento ((limite, aliquota, deducao, nome) # drop (Suc k) faixas_2024)" .
  from hi B have le: "fle rendimento limite" by (simp add: fle_def)
  have pre: "flt (Fin 0) rendimento \<or> max0 (fsub (fmul rendimento aliquota) deducao) = Fin 0"
  proof (cases "k = 0")
    case True
    with B have "aliquota = Fin 0" "deducao = Fin 0" by (auto simp: tabela_2024)
    moreover from nn have "flt (Fin 0) rendimento \<or> rendimento = Fin 0"
      by (auto simp: fle_def feq_def)
    ultimately show ?thesis using imposto_zero_na_faixa_isenta by auto
  next
    case False
    with lo have l: "flt (fst (faixas_2024 ! (k - 1))) rendimento" by simp
    from k5 have "flt (Fin 0) (fst (faixas_2024 ! (k - 1)))"
      by (intro limites_positivos) simp
    from this l have "flt (Fin 0) rendimento" by (rule flt_trans)
    then show ?thesis ..
  qed
  from percorrer_acerta[OF le pre, of 2024 nome "drop (Suc k) faixas_2024"]
  obtain rel where rel: "percorrer_faixas 2024 rendimento
        ((limite, aliquota, deducao, nome) # drop (Suc k) faixas_2024) = Inr (RelatorioIR rel)"
    and props: "ir_faixa rel = nome"
      "ir_imposto_devido rel = max0 (fsub (fmul rendimento aliquota) deducao)"
      "ir_rodape rel = Isento \<longleftrightarrow> feq (ir_imposto_devido rel) (Fin 0)"
      "(\<exists>q. fdiv (ir_imposto_devido rel) rendimento = Inr q
                     \<and> ir_rodape rel = AliquotaEfetiva (fmul q (Fin 100)))
                \<longleftrightarrow> flt (Fin 0) (ir_imposto_devido rel)"
    by (elim exE conjE)
  from naoneg P rel have "imposto_renda_melhorado rendimento 2024 = RelatorioIR rel"
    by (simp add: imposto_renda_melhorado_def)
  with props show ?thesis by blast
qed

lemma exemplo_50000:
  "imposto_renda_melhorado (lit 50000) 2024 =
     RelatorioIR (RelatorioImposto 2024 (Fin 50000) ''15%'' (Fin 15)
       (Fin (2916399617094451 / 549755813888)) (Fin (1206768987065549 / 549755813888))
       (Fin (6570255426833613 / 137438953472))
       (AliquotaEfetiva (Fin (4942925771020489 / 1125899906842624))))"
  by code_simp

lemma exemplo_28559_70:
  "imposto_renda_melhorado (lit 28559.70) 2024 =
     RelatorioIR (RelatorioImposto 2024 (Fin (7850430558948557 / 274877906944)) ''Isento''
       (Fin 0) (Fin 0) (Fin 0) (Fin (7850430558948557 / 274877906944)) Isento)"
  by code_simp

lemma imposto_50000: "fsub (fmul (lit 50000) (lit 0.15)) (lit 5304.90) = Fin (1206768987065549 / 549755813888)"
  by code_simp

lemma formato_2195_10: "format_f True 2 (Fin (1206768987065549 / 549755813888)) = ''2,195.10''"
  by code_simp

lemma formato_0_00: "format_f True 2 (Fin 0) = ''0.00''"
  by code_simp

text \<open>
  C2. For an income that is not negative and lies strictly inside bracket \<open>k\<close> of the
  2024 table, the calculator answers with a report of that bracket whose tax due is
  \<open>max(0, income * rate - deduction)\<close> in floating-point arithmetic; the report ends
  with the exempt marker exactly when the tax due is zero, and with the effective
  rate (tax / income * 100) exactly when the tax due is positive. An income of 50000
  in 2024 falls in the bracket \<open>15%\<close> with tax \<open>50000 * 0.15 - 5304.90\<close>, shown as
  \<open>2,195.10\<close>; an income of 28559.70 gets tax \<open>0.00\<close> and the exempt marker.
\<close>

theorem imposto_renda_2024_por_faixa:
  "(dentro_da_faixa faixas_2024 k rendimento
      \<and> faixas_2024 ! k = (limite, aliquota, deducao, nome) \<longrightarrow>
      (\<exists>rel. imposto_renda_melhorado rendimento 2024 = RelatorioIR rel
         \<and> ir_faixa rel = nome
         \<and> ir_imposto_devido rel = max0 (fsub (fmul rendimento aliquota) deducao)
         \<and> (ir_rodape rel = Isento \<longleftrightarrow> feq (ir_imposto_devido rel) (Fin 0))
         \<and> ((\<exists>q. fdiv (ir_imposto_devido rel) rendimento = Inr q
                   \<and> ir_rodape rel = AliquotaEfetiva (fmul q (Fin 100)))
              \<longleftrightarrow> flt (Fin 0) (ir_imposto_devido rel))))
   \<and> (\<exists>rel. imposto_renda_melhorado (lit 50000) 2024 = RelatorioIR rel
         \<and> ir_faixa rel = ''15%''
         \<and> ir_imposto_devido rel = fsub (fmul (lit 50000) (lit 0.15)) (lit 5304.90)
         \<and> format_f True 2 (ir_imposto_devido rel) = ''2,195.10'')
   \<and> (\<exists>rel. imposto_renda_melhorado (lit 28559.70) 2024 = RelatorioIR rel
         \<and> ir_faixa rel = ''Isento''
         \<and> format_f True 2 (ir_imposto_devido rel) = ''0.00''
         \<and> ir_rodape rel = Isento)"
proof (intro conjI impI)
  assume "dentro_da_faixa faixas_2024 k rendimento
      \<and> faixas_2024 ! k = (limite, aliquota, deducao, nome)"
  then show "\<exists>rel. imposto_renda_melhorado rendimento 2024 = RelatorioIR rel
         \<and> ir_faixa rel = nome
         \<and> ir_imposto_devido rel = max0 (fsub (fmul rendimento aliquota) deducao)
         \<and> (ir_rodape rel = Isento \<longleftrightarrow> feq (ir_imposto_devido rel) (Fin 0))
         \<and> ((\<exists>q. fdiv (ir_imposto_devido rel) rendimento = Inr q
                   \<and> ir_rodape rel = AliquotaEfetiva (fmul q (Fin 100)))
              \<longleftrightarrow> flt (Fin 0) (ir_imposto_devido rel))"
    using imposto_renda_dentro by blast
next
  show "\<exists>rel. imposto_renda_melhorado (lit 50000) 2024 = RelatorioIR rel
         \<and> ir_faixa rel = ''15%''
         \<and> ir_imposto_devido rel = fsub (fmul (lit 50000) (lit 0.15)) (lit 5304.90)
         \<and> format_f True 2 (ir_imposto_devido rel) = ''2,195.10''"
    unfolding exemplo_50000 imposto_50000
    by (intro exI conjI, rule refl) (simp_all only: relatorio_ir.sel formato_2195_10)
next
  show "\<exists>rel. imposto_renda_melhorado (lit 28559.70) 2024 = RelatorioIR rel
         \<and> ir_faixa rel = ''Isento''
         \<and> format_f True 2 (ir_imposto_devido rel) = ''0.00''
         \<and> ir_rodape rel = Isento"
    unfolding exemplo_28559_70
    by (intro exI conjI, rule refl) (simp_all only: relatorio_ir.sel formato_0_00)
qed

theorem imposto_renda_2024_por_faixa_witness:
  "dentro_da_faixa faixas_2024 2 (Fin 50000)
   \<and> faixas_2024 ! 2 = (lit 56717.56, lit 0.15, lit 5304.90, ''15%'')
   \<and> (\<exists>rel. imposto_renda_melhorado (Fin 50000) 2024 = RelatorioIR rel
         \<and> ir_faixa rel = ''15%''
         \<and> ir_imposto_devido rel = max0 (fsub (fmul (Fin 50000) (lit 0.15)) (lit 5304.90))
         \<and> (ir_rodape rel = Isento \<longleftrightarrow> feq (ir_imposto_devido rel) (Fin 0))
         \<and> ((\<exists>q. fdiv (ir_imposto_devido rel) (Fin 50000) = Inr q
                   \<and> ir_rodape rel = AliquotaEfetiva (fmul q (Fin 100)))
              \<longleftrightarrow> flt (Fin 0) (ir_imposto_devido rel)))"
proof -
  have d: "dentro_da_faixa faixas_2024 2 (Fin 50000)" by code_simp
  have t: "faixas_2024 ! 2 = (lit 56717.56, lit 0.15, lit 5304.90, ''15%'')"
    by (simp add: faixas_2024_def)
  note T = imposto_renda_2024_por_faixa[of 2 "Fin 50000" "lit 56717.56" "lit 0.15" "lit 5304.90" "''15%''"]
  from T[THEN conjunct1, THEN mp, OF conjI[OF d t]] d t show ?thesis
    by (intro conjI)
qed

section \<open>Percentage and simple interest\<close>

lemma flt_pos_not_fle: "flt (Fin 0) x \<Longrightarrow> \<not> fle x (Fin 0)"
  by (cases x) (auto simp: fle_def feq_def)

lemma fdiv_100: "\<exists>p. fdiv x (Fin 100) = Inr p"
  by (cases x) auto

lemma lower_porcentagem: "lower ''porcentagem'' = ''porcentagem''"
  by code_simp

lemma lower_juros_simples: "lower ''juros_simples'' = ''juros_simples''"
  by code_simp

lemma lower_juros_compostos: "lower ''juros_compostos'' = ''juros_compostos''"
  by code_simp

text \<open>
  C7. When the base value and the percentage are both strictly positive, the
  percentage calculator reports the value times the hundredth of the percentage
  (\<open>valor * (percentual / 100)\<close>, each operation rounded); when either is zero or
  negative (a missing argument counts as zero) it answers with the rejection message
  and no report. For 10000 and 15 the result is 1500, shown as \<open>1,500.00\<close>.
\<close>

theorem calculadora_porcentagem:
  "(flt (Fin 0) (obter kwargs ''valor'') \<and> flt (Fin 0) (obter kwargs ''percentual'') \<longrightarrow>
      (\<exists>p. fdiv (obter kwargs ''percentual'') (Fin 100) = Inr p
         \<and> calculadora_financeira_geral pw ''porcentagem'' kwargs =
             RelatorioPorcentagem
               (RelatorioPct (obter kwargs ''valor'') (obter kwargs ''percentual'')
                  (fmul (obter kwargs ''valor'') p))))
   \<and> (fle (obter kwargs ''valor'') (Fin 0) \<or> fle (obter kwargs ''percentual'') (Fin 0) \<longrightarrow>
        calculadora_financeira_geral pw ''porcentagem'' kwargs = PorcentagemNaoPositiva)"
proof (intro conjI impI)
  assume "flt (Fin 0) (obter kwargs ''valor'') \<and> flt (Fin 0) (obter kwargs ''percentual'')"
  then have n: "\<not> fle (obter kwargs ''valor'') (Fin 0)" "\<not> fle (obter kwargs ''percentual'') (Fin 0)"
    by (simp_all add: flt_pos_not_fle)
  obtain p where p: "fdiv (obter kwargs ''percentual'') (Fin 100) = Inr p"
    using fdiv_100 by blast
  with n show "\<exists>p. fdiv (obter kwargs ''percentual'') (Fin 100) = Inr p
         \<and> calculadora_financeira_geral pw ''porcentagem'' kwargs =
             RelatorioPorcentagem
               (RelatorioPct (obter kwargs ''valor'') (obter kwargs ''percentual'')
                  (fmul (obter kwargs ''valor'') p))"
    by (simp add: calculadora_financeira_geral_def lower_porcentagem porcentagem_def then_ok_def
          Let_def del: fdiv.simps)
next
  assume "fle (obter kwargs ''valor'') (Fin 0) \<or> fle (obter kwargs ''percentual'') (Fin 0)"
  then show "calculadora_financeira_geral pw ''porcentagem'' kwargs = PorcentagemNaoPositiva"
    by (auto simp: calculadora_financeira_geral_def lower_porcentagem porcentagem_def Let_def)
qed

theorem calculadora_porcentagem_witness:
  "flt (Fin 0) (Fin 10000) \<and> flt (Fin 0) (Fin 15)
   \<and> calculadora_financeira_geral potencia_referencia ''porcentagem''
        [''valor'' \<mapsto> Fin 10000, ''percentual'' \<mapsto> Fin 15] =
      RelatorioPorcentagem (RelatorioPct (Fin 10000) (Fin 15) (Fin 1500))
   \<and> format_f True 2 (Fin 1500) = ''1,500.00''
   \<and> fle (Fin 0) (Fin 0)
   \<and> calculadora_financeira_geral potencia_referencia ''porcentagem''
        [''valor'' \<mapsto> Fin 0, ''percentual'' \<mapsto> Fin 15] = PorcentagemNaoPositiva
   \<and> calculadora_financeira_geral potencia_referencia ''porcentagem''
        [''valor'' \<mapsto> Fin 10000, ''percentual'' \<mapsto> Fin 0] = PorcentagemNaoPositiva"
proof -
  let ?k = "[''valor'' \<mapsto> Fin 10000, ''percentual'' \<mapsto> Fin 15]"
  let ?z = "[''valor'' \<mapsto> Fin 0, ''percentual'' \<mapsto> Fin 15]"
  let ?y = "[''valor'' \<mapsto> Fin 10000, ''percentual'' \<mapsto> Fin 0]"
  have v: "obter ?k ''valor'' = Fin 10000" by code_simp
  have pc: "obter ?k ''percentual'' = Fin 15" by code_simp
  have h1: "flt (Fin 0) (Fin 10000)" by simp
  have h2: "flt (Fin 0) (Fin 15)" by simp
  note T = calculadora_porcentagem[of ?k potencia_referencia, unfolded v pc]
  from T[THEN conjunct1, THEN mp, OF conjI[OF h1 h2]]
  obtain p where p: "fdiv (Fin 15) (Fin 100) = Inr p"
    and r: "calculadora_financeira_geral potencia_referencia ''porcentagem'' ?k =
              RelatorioPorcentagem (RelatorioPct (Fin 10000) (Fin 15) (fmul (Fin 10000) p))"
    by (elim exE conjE)
  have q: "fdiv (Fin 15) (Fin 100) = Inr (lit 0.15)" by code_simp
  from p have "Inr p = (Inr (lit 0.15) :: excecao + pyfloat)" by (simp only: q)
  then have pe: "p = lit 0.15" by (simp only: sum.inject)
  have m: "fmul (Fin 10000) (lit 0.15) = Fin 1500" by code_simp
  have 1: "calculadora_financeira_geral potencia_referencia ''porcentagem'' ?k =
      RelatorioPorcentagem (RelatorioPct (Fin 10000) (Fin 15) (Fin 1500))"
    unfolding r pe m ..
  have f: "format_f True 2 (Fin 1500) = ''1,500.00''" by code_simp
  have le0: "fle (Fin 0) (Fin 0)" by (simp add: fle_def feq_def)
  have z: "obter ?z ''valor'' = Fin 0" by code_simp
  have y: "obter ?y ''percentual'' = Fin 0" by code_simp
  note Z = calculadora_porcentagem[of ?z potencia_referencia, unfolded z]
  have 2: "calculadora_financeira_geral potencia_referencia ''porcentagem'' ?z = PorcentagemNaoPositiva"
    by (rule Z[THEN conjunct2, THEN mp, OF disjI1[OF le0]])
  note Y = calculadora_porcentagem[of ?y potencia_referencia, unfolded y]
  have 3: "calculadora_financeira_geral potencia_referencia ''porcentagem'' ?y = PorcentagemNaoPositiva"
    by (rule Y[THEN conjunct2, THEN mp, OF disjI2[OF le0]])
  show ?thesis by (intro conjI h1 h2 1 f le0 2 3)
qed

text \<open>
  C9. The simple-interest calculator checks nothing: for every dictionary of
  arguments it answers with a report whose interest is
  \<open>principal * (taxa / 100) * periodo\<close> and whose amount is the principal plus the
  interest, also when the arguments are zero or negative. For 10000, 10 and 5 the
  interest is 5000 and the amount 15000.
\<close>

theorem calculadora_juros_simples:
  "\<exists>taxa. fdiv (obter kwargs ''taxa'') (Fin 100) = Inr taxa
     \<and> calculadora_financeira_geral pw ''juros_simples'' kwargs =
         RelatorioJurosSimples
           (RelatorioJS (obter kwargs ''principal'') (fmul taxa (Fin 100)) (obter kwargs ''periodo'')
              (fmul (fmul (obter kwargs ''principal'') taxa) (obter kwargs ''periodo''))
              (fadd (obter kwargs ''principal'')
                 (fmul (fmul (obter kwargs ''principal'') taxa) (obter kwargs ''periodo''))))"
proof -
  obtain taxa where "fdiv (obter kwargs ''taxa'') (Fin 100) = Inr taxa"
    using fdiv_100 by blast
  then show ?thesis
    by (simp add: calculadora_financeira_geral_def lower_juros_simples juros_simples_def
          then_ok_def Let_def del: fdiv.simps)
qed

theorem calculadora_juros_simples_witness:
  "calculadora_financeira_geral potencia_referencia ''juros_simples''
     [''principal'' \<mapsto> Fin 10000, ''taxa'' \<mapsto> Fin 10, ''periodo'' \<mapsto> Fin 5] =
     RelatorioJurosSimples (RelatorioJS (Fin 10000) (Fin 10) (Fin 5) (Fin 5000) (Fin 15000))
   \<and> format_f True 2 (Fin 5000) = ''5,000.00'' \<and> format_f True 2 (Fin 15000) = ''15,000.00''
   \<and> calculadora_financeira_geral potencia_referencia ''juros_simples''
     [''principal'' \<mapsto> Fin (- 10000), ''taxa'' \<mapsto> Fin 0, ''periodo'' \<mapsto> Fin (- 5)] =
     RelatorioJurosSimples (RelatorioJS (Fin (- 10000)) (Fin 0) (Fin (- 5)) (Fin 0) (Fin (- 10000)))"
proof -
  let ?k = "[''principal'' \<mapsto> Fin 10000, ''taxa'' \<mapsto> Fin 10, ''periodo'' \<mapsto> Fin 5]"
  let ?n = "[''principal'' \<mapsto> Fin (- 10000), ''taxa'' \<mapsto> Fin 0, ''periodo'' \<mapsto> Fin (- 5)]"
  have k1: "obter ?k ''principal'' = Fin 10000" by code_simp
  have k2: "obter ?k ''taxa'' = Fin 10" by code_simp
  have k3: "obter ?k ''periodo'' = Fin 5" by code_simp
  have n1: "obter ?n ''principal'' = Fin (- 10000)" by code_simp
  have n2: "obter ?n ''taxa'' = Fin 0" by code_simp
  have n3: "obter ?n ''periodo'' = Fin (- 5)" by code_simp
  from calculadora_juros_simples[of ?k potencia_referencia, unfolded k1 k2 k3]
  obtain t where t: "fdiv (Fin 10) (Fin 100) = Inr t"
    and r: "calculadora_financeira_geral potencia_referencia ''juros_simples'' ?k =
         RelatorioJurosSimples
           (RelatorioJS (Fin 10000) (fmul t (Fin 100)) (Fin 5)
              (fmul (fmul (Fin 10000) t) (Fin 5))
              (fadd (Fin 10000) (fmul (fmul (Fin 10000) t) (Fin 5))))"
    by (elim exE conjE)
  have q: "fdiv (Fin 10) (Fin 100) = Inr (lit 0.1)" by code_simp
  from t have "Inr t = (Inr (lit 0.1) :: excecao + pyfloat)" by (simp only: q)
  then have te: "t = lit 0.1" by (simp only: sum.inject)
  have m1: "fmul (lit 0.1) (Fin 100) = Fin 10" by code_simp
  have m2: "fmul (fmul (Fin 10000) (lit 0.1)) (Fin 5) = Fin 5000" by code_simp
  have m3: "fadd (Fin 10000) (Fin 5000) = Fin 15000" by code_simp
  have 1: "calculadora_financeira_geral potencia_referencia ''juros_simples'' ?k =
     RelatorioJurosSimples (RelatorioJS (Fin 10000) (Fin 10) (Fin 5) (Fin 5000) (Fin 15000))"
    unfolding r te m1 m2 m3 ..
  from calculadora_juros_simples[of ?n potencia_referencia, unfolded n1 n2 n3]
  obtain u where u: "fdiv (Fin 0) (Fin 100) = Inr u"
    and s: "calculadora_financeira_geral potencia_referencia ''juros_simples'' ?n =
         RelatorioJurosSimples
           (RelatorioJS (Fin (- 10000)) (fmul u (Fin 100)) (Fin (- 5))
              (fmul (fmul (Fin (- 10000)) u) (Fin (- 5)))
              (fadd (Fin (- 10000)) (fmul (fmul (Fin (- 10000)) u) (Fin (- 5)))))"
    by (elim exE conjE)
  have q0: "fdiv (Fin 0) (Fin 100) = Inr (Fin 0)" by code_simp
  from u have "Inr u = (Inr (Fin 0) :: excecao + pyfloat)" by (simp only: q0)
  then have ue: "u = Fin 0" by (simp only: sum.inject)
  have z1: "fmul (Fin 0) (Fin 100) = Fin 0" by code_simp
  have z2: "fmul (fmul (Fin (- 10000)) (Fin 0)) (Fin (- 5)) = Fin 0" by code_simp
  have z3: "fadd (Fin (- 10000)) (Fin 0) = Fin (- 10000)" by code_simp
  have 2: "calculadora_financeira_geral potencia_referencia ''juros_simples'' ?n =
     RelatorioJurosSimples (RelatorioJS (Fin (- 10000)) (Fin 0) (Fin (- 5)) (Fin 0) (Fin (- 10000)))"
    unfolding s ue z1 z2 z3 ..
  have f1: "format_f True 2 (Fin 5000) = ''5,000.00''" by code_simp
  have f2: "format_f True 2 (Fin 15000) = ''15,000.00''" by code_simp
  show ?thesis by (intro conjI 1 f1 f2 2)
qed

section \<open>The order of the rules\<close>

lemma porcent_em_porcentagem: "sublist ''porcent'' ''porcentagem''"
  by code_simp

lemma porcentagem_contem_porcent:
  assumes "sublist ''porcentagem'' s"
  shows "contem_algum termos_porcentagem s"
proof -
  from porcent_em_porcentagem obtain p1 s1 where 1: "''porcentagem'' = p1 @ ''porcent'' @ s1"
    unfolding sublist_def by blast
  from assms obtain p2 s2 where 2: "s = p2 @ ''porcentagem'' @ s2"
    unfolding sublist_def by blast
  have "s = (p2 @ p1) @ ''porcent'' @ (s1 @ s2)"
    unfolding 2 by (subst 1) simp
  then have "sublist ''porcent'' s"
    unfolding sublist_def by blast
  then show ?thesis
    by (simp add: contem_algum_def termos_porcentagem_def)
qed

text \<open>
  C5. The manual analysis of the source is the classification of the specification
  followed by the dispatch: the rules are tried in the order tax, percentage,
  compound interest, academic search, incomplete percentage, and the branch of the
  first rule that applies is the one taken, whatever later rules apply as well; with
  no rule, the general branch. In particular a message with a tax keyword goes to
  the tax branch even when it holds a percentage keyword too.
\<close>

theorem analise_manual_primeira_regra:
  "analise_manual env message = despachar env (classify message) message
   \<and> (contem_algum termos_ir (lower message) \<longrightarrow>
        analise_manual env message = capturar [AnaliseManual, DetectadoIR] (ramo_ir message))"
proof -
  define l where "l = lower message"
  have nr: "\<not> contem_algum termos_porcentagem l \<Longrightarrow> \<not> sublist ''porcentagem'' l"
    using porcentagem_contem_porcent by blast
  have 1: "analise_manual env message = despachar env (classify message) message"
  proof (cases "contem_algum termos_ir l")
    case True
    then show ?thesis
      unfolding l_def by (simp add: analise_manual_def classify_def regras_def Let_def)
  next
    case n1: False
    show ?thesis
    proof (cases "contem_algum termos_porcentagem l")
      case True
      with n1 show ?thesis
        unfolding l_def by (simp add: analise_manual_def classify_def regras_def Let_def)
    next
      case n2: False
      note n5 = nr[OF n2]
      show ?thesis
      proof (cases "contem_algum termos_juros_compostos l")
        case True
        with n1 n2 show ?thesis
          unfolding l_def by (simp add: analise_manual_def classify_def regras_def Let_def)
      next
        case n3: False
        show ?thesis
        proof (cases "contem_algum termos_busca_academica l")
          case True
          with n1 n2 n3 show ?thesis
            unfolding l_def by (simp add: analise_manual_def classify_def regras_def Let_def)
        next
          case n4: False
          with n1 n2 n3 n5 show ?thesis
            unfolding l_def by (simp add: analise_manual_def classify_def regras_def Let_def)
        qed
      qed
    qed
  qed
  have 2: "contem_algum termos_ir (lower message) \<longrightarrow>
        analise_manual env message = capturar [AnaliseManual, DetectadoIR] (ramo_ir message)"
    by (simp add: analise_manual_def Let_def)
  from 1 2 show ?thesis by (rule conjI)
qed

theorem analise_manual_primeira_regra_witness:
  "contem_algum termos_ir (lower ''Imposto de Renda: quanto e 10% de 50000?'')
   \<and> contem_algum termos_porcentagem (lower ''Imposto de Renda: quanto e 10% de 50000?'')
   \<and> classify ''Imposto de Renda: quanto e 10% de 50000?'' = Tax
   \<and> analise_manual ambiente_sem_agente ''Imposto de Renda: quanto e 10% de 50000?'' =
       ([AnaliseManual, DetectadoIR],
        RelatorioIR (RelatorioImposto 2024 (Fin 10) ''Isento'' (Fin 0) (Fin 0) (Fin 0) (Fin 10) Isento))"
proof -
  let ?m = "''Imposto de Renda: quanto e 10% de 50000?''"
  have h: "contem_algum termos_ir (lower ?m)" by code_simp
  have p: "contem_algum termos_porcentagem (lower ?m)" by code_simp
  have c: "classify ?m = Tax" by code_simp
  have r: "ramo_ir ?m =
     Inr (RelatorioIR (RelatorioImposto 2024 (Fin 10) ''Isento'' (Fin 0) (Fin 0) (Fin 0) (Fin 10) Isento))"
    by code_simp
  note T = analise_manual_primeira_regra[of ambiente_sem_agente ?m]
  from T[THEN conjunct2, THEN mp, OF h]
  have "analise_manual ambiente_sem_agente ?m =
          capturar [AnaliseManual, DetectadoIR] (ramo_ir ?m)" .
  then have a: "analise_manual ambiente_sem_agente ?m =
       ([AnaliseManual, DetectadoIR],
        RelatorioIR (RelatorioImposto 2024 (Fin 10) ''Isento'' (Fin 0) (Fin 0) (Fin 0) (Fin 10) Isento))"
    unfolding r capturar_def by simp
  show ?thesis by (intro conjI h p c a)
qed

section \<open>What the extractor and its callers do on three messages\<close>

text \<open>
  C1. On the message \<open>Calcule 20% de R$ 5.000\<close> the pattern for the monetary value,
  whose currency prefix is optional, matches the \<open>20\<close> of the percentage first: the
  extractor yields 20 for the value (and for the percentage), not 5000, and the
  percentage branch of the chat reports 20% of 20, shown as \<open>4.00\<close>.
\<close>

theorem extrator_toma_percentual_por_valor:
  "findall rx_monetario ''Calcule 20% de R$ 5.000'' = [''20'', ''5.000'']
   \<and> (case extrair_valores_numericos ''Calcule 20% de R$ 5.000'' of
         Inl e \<Rightarrow> False
       | Inr valores \<Rightarrow>
           valores ''valor'' = Some (Fin 20) \<and> valores ''principal'' = Some (Fin 20)
           \<and> valores ''percentual'' = Some (Fin 20) \<and> valores ''taxa'' = Some (Fin 20))
   \<and> chat ambiente_sem_agente ''Calcule 20% de R$ 5.000'' =
       ([Processando, TentandoReAct, ReActFalhou, AnaliseManual, DetectadoPorcentagem],
        RelatorioPorcentagem (RelatorioPct (Fin 20) (Fin 20) (Fin 4)))
   \<and> format_f True 2 (Fin 4) = ''4.00''"
proof (intro conjI)
  show "findall rx_monetario ''Calcule 20% de R$ 5.000'' = [''20'', ''5.000'']"
    by code_simp
  show "case extrair_valores_numericos ''Calcule 20% de R$ 5.000'' of
         Inl e \<Rightarrow> False
       | Inr valores \<Rightarrow>
           valores ''valor'' = Some (Fin 20) \<and> valores ''principal'' = Some (Fin 20)
           \<and> valores ''percentual'' = Some (Fin 20) \<and> valores ''taxa'' = Some (Fin 20)"
    by code_simp
  show "chat ambiente_sem_agente ''Calcule 20% de R$ 5.000'' =
       ([Processando, TentandoReAct, ReActFalhou, AnaliseManual, DetectadoPorcentagem],
        RelatorioPorcentagem (RelatorioPct (Fin 20) (Fin 20) (Fin 4)))"
    by code_simp
  show "format_f True 2 (Fin 4) = ''4.00''"
    by code_simp
qed

text \<open>
  C3. A comma standing alone is a match of the class \<open>[\d.,]+\<close>: on \<open>Ola, mundo\<close>, a
  text with no digit, the first monetary match is \<open>,\<close>, \<open>float\<close> is applied to \<open>.\<close> and
  raises \<open>ValueError\<close>, and the extractor raises with it. In the chat the exception
  reaches the outermost handler: a percentage question that starts with a greeting
  and a comma is answered with the critical-error message.
\<close>

theorem extrator_levanta_ValueError:
  "findall rx_monetario ''Ola, mundo'' = ['','']
   \<and> float_of_str (replace_char CHR '','' ''.'' (replace_char CHR ''.'' [] '','')) = Inl ValueError
   \<and> extrair_valores_numericos ''Ola, mundo'' = Inl ValueError
   \<and> chat ambiente_sem_agente ''Ola, quanto e 10% de 200?'' =
       ([Processando, TentandoReAct, ReActFalhou, AnaliseManual, DetectadoPorcentagem,
         ErroCriticoChat],
        ErroCritico ValueError)"
proof (intro conjI)
  show "findall rx_monetario ''Ola, mundo'' = ['','']"
    by code_simp
  show "float_of_str (replace_char CHR '','' ''.'' (replace_char CHR ''.'' [] '','')) = Inl ValueError"
    by code_simp
  have "case extrair_valores_numericos ''Ola, mundo'' of
          Inl e \<Rightarrow> e = ValueError | Inr valores \<Rightarrow> False"
    by code_simp
  then show "extrair_valores_numericos ''Ola, mundo'' = Inl ValueError"
    by (cases "extrair_valores_numericos ''Ola, mundo''") simp_all
  show "chat ambiente_sem_agente ''Ola, quanto e 10% de 200?'' =
       ([Processando, TentandoReAct, ReActFalhou, AnaliseManual, DetectadoPorcentagem,
         ErroCriticoChat],
        ErroCritico ValueError)"
    by code_simp
qed

text \<open>
  C10. The tax branch and the percentage branch test their fields with
  \<open>valores.get(...)\<close> as a condition, which is false for a key that is present with the
  value zero: an income of \<open>R$ 0\<close>, found by the extractor, is answered with the prompt
  for the income, and \<open>0% de 150\<close> with the prompt for the value and the percentage,
  where the calculator would have answered with its rejection. The compound-interest
  branch tests the presence of the keys: a principal of zero reaches the calculator,
  which rejects it.
\<close>

theorem ramos_tomam_zero_por_ausente:
  "(case extrair_valores_numericos ''Qual o imposto de renda de R$ 0?'' of
      Inl e \<Rightarrow> False
    | Inr valores \<Rightarrow> valores ''principal'' = Some (Fin 0))
   \<and> chat ambiente_sem_agente ''Qual o imposto de renda de R$ 0?'' =
       ([Processando, TentandoReAct, ReActFalhou, AnaliseManual, DetectadoIR], PedirRenda)
   \<and> (case extrair_valores_numericos ''Quanto e 0% de 150?'' of
         Inl e \<Rightarrow> False
       | Inr valores \<Rightarrow>
           valores ''valor'' = Some (Fin 0) \<and> valores ''percentual'' = Some (Fin 0))
   \<and> chat ambiente_sem_agente ''Quanto e 0% de 150?'' =
       ([Processando, TentandoReAct, ReActFalhou, AnaliseManual, DetectadoPorcentagem],
        PedirPorcentagem)
   \<and> calculadora_financeira_geral potencia_referencia ''porcentagem''
         [''valor'' \<mapsto> Fin 0, ''percentual'' \<mapsto> Fin 0] = PorcentagemNaoPositiva
   \<and> chat ambiente_sem_agente ''Juros compostos de R$ 0 a 5% por 2 anos'' =
       ([Processando, TentandoReAct, ReActFalhou, AnaliseManual, DetectadoJurosCompostos],
        JurosCompostosNaoPositivos)"
proof (intro conjI)
  show "case extrair_valores_numericos ''Qual o imposto de renda de R$ 0?'' of
      Inl e \<Rightarrow> False
    | Inr valores \<Rightarrow> valores ''principal'' = Some (Fin 0)"
    by code_simp
  show "chat ambiente_sem_agente ''Qual o imposto de renda de R$ 0?'' =
       ([Processando, TentandoReAct, ReActFalhou, AnaliseManual, DetectadoIR], PedirRenda)"
    by code_simp
  show "case extrair_valores_numericos ''Quanto e 0% de 150?'' of
         Inl e \<Rightarrow> False
       | Inr valores \<Rightarrow>
           valores ''valor'' = Some (Fin 0) \<and> valores ''percentual'' = Some (Fin 0)"
    by code_simp
  show "chat ambiente_sem_agente ''Quanto e 0% de 150?'' =
       ([Processando, TentandoReAct, ReActFalhou, AnaliseManual, DetectadoPorcentagem],
        PedirPorcentagem)"
    by code_simp
  show "calculadora_financeira_geral potencia_referencia ''porcentagem''
         [''valor'' \<mapsto> Fin 0, ''percentual'' \<mapsto> Fin 0] = PorcentagemNaoPositiva"
    by code_simp
  show "chat ambiente_sem_agente ''Juros compostos de R$ 0 a 5% por 2 anos'' =
       ([Processando, TentandoReAct, ReActFalhou, AnaliseManual, DetectadoJurosCompostos],
        JurosCompostosNaoPositivos)"
    by code_simp
qed

end
